theory Spec2Isabelle
  imports Complex_Main "HOL-Library.Log_Nat"
begin

section \<open>Strings\<close>

text \<open>
  A TypeScript string is modelled as a \<open>string\<close> whose characters are the code units
  below 256 (ASCII and the Latin-1 supplement). The three string methods that
  \<open>formatSql\<close> calls are written out on that range.
\<close>

definition newline :: char where
  "newline = CHR 0x0A"

definition toLowerCase_unit :: "char \<Rightarrow> char" where
  \<comment> \<open>\<open>A\<close>..\<open>Z\<close> and the capital letters of Latin-1 (0xC0..0xDE without the
      multiplication sign 0xD7) move up by 32; every other code unit stays.\<close>
  "toLowerCase_unit c =
     (let n = (of_char c :: nat)
      in if (65 \<le> n \<and> n \<le> 90) \<or> (192 \<le> n \<and> n \<le> 222 \<and> n \<noteq> 215)
         then char_of (n + 32) else c)"

definition toLowerCase :: "string \<Rightarrow> string" where
  "toLowerCase s = map toLowerCase_unit s"

definition startsWith :: "string \<Rightarrow> string \<Rightarrow> bool" where
  \<comment> \<open>\<open>s.startsWith(p)\<close>\<close>
  "startsWith s p = (take (length p) s = p)"

fun replace :: "string \<Rightarrow> string \<Rightarrow> string \<Rightarrow> string" where
  \<comment> \<open>\<open>s.replace(pat, rep)\<close> with a string pattern: only the first occurrence of
      \<open>pat\<close> is replaced. (The \<open>$\<close> patterns of the replacement are not modelled; the
      one call in the source passes the empty replacement.)\<close>
  "replace pat rep [] = (if pat = [] then rep else [])"
| "replace pat rep (c # cs) =
     (if startsWith (c # cs) pat then rep @ drop (length pat) (c # cs)
      else c # replace pat rep cs)"

subsection \<open>Numbers in a template literal\<close>

text \<open>
  \<open>formatSql\<close> interpolates \<open>limit\<close> and \<open>offset\<close> into a template literal. The
  conversion of a number to its text is a parameter \<open>str\<close> of the model, so theorems
  hold for every number and every rendering. \<open>decimal\<close> is the rendering of the integers
  (of magnitude below \<open>10^21\<close>, where JavaScript prints plain decimal digits), used to
  evaluate the model on concrete inputs.
\<close>

fun digits :: "nat \<Rightarrow> string" where
  "digits n =
     (if n < 10 then [char_of (48 + n)]
      else digits (n div 10) @ [char_of (48 + n mod 10)])"

definition decimal :: "int \<Rightarrow> string" where
  "decimal i = (if i < 0 then CHR ''-'' # digits (nat (- i)) else digits (nat i))"

section \<open>ParquetDocument.formatSql\<close>

definition formatSql :: "('n \<Rightarrow> string) \<Rightarrow> string \<Rightarrow> 'n \<Rightarrow> 'n \<Rightarrow> string" where
  "formatSql str sql limit offset =
     (if startsWith (toLowerCase sql) ''describe'' then sql
      else ''SELECT * FROM ('' @ [newline] @ replace '';'' '''' sql @ [newline]
           @ '') LIMIT '' @ str limit @ '' OFFSET '' @ str offset)"

subsection \<open>Trimming, as the specification words the describe rule\<close>

text \<open>
  The source never trims. \<open>trim\<close> below is \<open>String.prototype.trim\<close> on the modelled
  code units (tab, line feed, vertical tab, form feed, carriage return, space,
  no-break space); it is used only to state the specification's reading of the
  describe rule, \<open>spec_describe\<close>.
\<close>

definition isWhiteSpace :: "char \<Rightarrow> bool" where
  "isWhiteSpace c = ((of_char c :: nat) \<in> {9, 10, 11, 12, 13, 32, 160})"

definition trimStart :: "string \<Rightarrow> string" where
  "trimStart s = dropWhile isWhiteSpace s"

definition trimEnd :: "string \<Rightarrow> string" where
  "trimEnd s = rev (dropWhile isWhiteSpace (rev s))"

definition trim :: "string \<Rightarrow> string" where
  "trim s = trimEnd (trimStart s)"

definition spec_describe :: "string \<Rightarrow> bool" where
  "spec_describe sql = startsWith (toLowerCase (trim sql)) ''describe''"

section \<open>Result sets\<close>

text \<open>
  A row of \<open>duckdb.TableData\<close> is an object from column names to values, kept here as
  the list of its entries in property order (an object has each key once). Of the values
  only the ones the source tells apart are constructors of their own: a \<open>bigint\<close>, a
  finite \<open>number\<close> (with its exact value), and \<open>Other\<close> for every value of another type
  (strings, booleans, null, dates, buffers, nested lists and structs).
\<close>

datatype 'a jsvalue = BigInt int | Number rat | Other 'a

type_synonym 'a RowData = "(string \<times> 'a jsvalue) list"

type_synonym 'a TableData = "'a RowData list"

definition nearest_binary64 :: "int \<Rightarrow> int" where
  \<comment> \<open>The value of the double nearest to an integer: 53 significant bits, ties to the
      even significand. It is what \<open>Number(b)\<close> returns for a bigint \<open>b\<close> (below the
      overflow threshold \<open>2^1024\<close>, far above every integer type of the engine).\<close>
  "nearest_binary64 b =
     (let a = \<bar>b\<bar>; e = bitlen a - 53
      in if e \<le> 0 then b
         else let u = 2 ^ nat e; q = a div u; r = a mod u;
                  q' = (if u < 2 * r \<or> (2 * r = u \<and> odd q) then q + 1 else q)
              in sgn b * (q' * u))"

definition Number_of :: "int \<Rightarrow> 'a jsvalue" where
  \<comment> \<open>\<open>Number(value)\<close> on a bigint\<close>
  "Number_of b = Number (of_int (nearest_binary64 b))"

fun assign :: "string \<Rightarrow> 'a jsvalue \<Rightarrow> 'a RowData \<Rightarrow> 'a RowData" where
  \<comment> \<open>\<open>row[key] = v\<close>: an existing property keeps its place, a new one goes last\<close>
  "assign key v [] = [(key, v)]"
| "assign key v ((k, v') # row) =
     (if k = key then (k, v) # row else (k, v') # assign key v row)"

definition Object_entries :: "'a RowData \<Rightarrow> (string \<times> 'a jsvalue) list" where
  \<comment> \<open>the array of entries, taken once before the loop over it starts\<close>
  "Object_entries row = row"

section \<open>ParquetDocument.cleanResults\<close>

definition cleanRow :: "'a RowData \<Rightarrow> 'a RowData" where
  \<comment> \<open>the inner loop: \<open>if (typeof value == "bigint") row[key] = Number(value)\<close>\<close>
  "cleanRow row =
     fold (\<lambda>(key, value) row'.
             case value of BigInt b \<Rightarrow> assign key (Number_of b) row' | _ \<Rightarrow> row')
          (Object_entries row) row"

definition cleanResults :: "'a TableData \<Rightarrow> 'a TableData" where
  "cleanResults results = map cleanRow results"

definition spec_cleanCell :: "'a jsvalue \<Rightarrow> 'a jsvalue" where
  \<comment> \<open>What cleaning does to one cell, for the statement of the result: a bigint of
      magnitude at most \<open>2^53\<close> becomes the number of the same value, a larger one the
      nearest double, and every other value stays.\<close>
  "spec_cleanCell v =
     (case v of
        BigInt b \<Rightarrow>
          Number (if \<bar>b\<bar> \<le> 2 ^ 53 then of_int b else of_int (nearest_binary64 b))
      | _ \<Rightarrow> v)"

section \<open>Messages and the document's environment\<close>

datatype msg_type = Query | More

record 'a IMessage =
  type :: msg_type
  success :: bool
  message :: "string option"
  results :: "'a TableData option"

text \<open>
  The effects of the source are calls of \<open>db.all\<close> on the engine and calls of
  \<open>panel.webview.postMessage\<close>. The world records both in order, next to the state of
  the engine. The engine itself is outside the repository: it is a parameter \<open>db\<close>,
  a function from a statement and the engine's state to an error text (\<open>err.message\<close>)
  or a table, and the next state. \<open>db.all\<close> hands its outcome to a callback; the model
  runs the callback when the statement has been executed.
\<close>

record ('a, 'e) world =
  db_state :: 'e
  executed :: "string list"
  posted :: "'a IMessage list"

type_synonym ('a, 'e) database = "string \<Rightarrow> 'e \<Rightarrow> (string + 'a TableData) \<times> 'e"

definition db_all ::
  "('a, 'e) database \<Rightarrow> string
     \<Rightarrow> (string + 'a TableData \<Rightarrow> ('a, 'e) world \<Rightarrow> ('a, 'e) world)
     \<Rightarrow> ('a, 'e) world \<Rightarrow> ('a, 'e) world" where
  "db_all db stmt cb w =
     (case db stmt (db_state w) of
        (r, e') \<Rightarrow> cb r (w\<lparr>db_state := e', executed := executed w @ [stmt]\<rparr>))"

section \<open>ParquetDocument.runQuery and fetchMore\<close>

definition runQuery ::
  "('a, 'e) database \<Rightarrow> ('n::zero \<Rightarrow> string) \<Rightarrow> string \<Rightarrow> 'n
     \<Rightarrow> ('a IMessage \<Rightarrow> ('a, 'e) world \<Rightarrow> ('a, 'e) world)
     \<Rightarrow> ('a, 'e) world \<Rightarrow> ('a, 'e) world" where
  "runQuery db str sql limit callback =
     db_all db (''EXPLAIN'' @ [newline] @ sql) (\<lambda>r.
       case r of
         Inl err \<Rightarrow>
           callback \<lparr>type = Query, success = False, message = Some err, results = None\<rparr>
       | Inr res \<Rightarrow>
           db_all db (formatSql str sql limit 0) (\<lambda>r.
             case r of
               Inl err \<Rightarrow>
                 callback \<lparr>type = Query, success = False, message = Some err, results = None\<rparr>
             | Inr res \<Rightarrow>
                 callback \<lparr>type = Query, success = True, message = None,
                           results = Some (cleanResults res)\<rparr>))"

definition fetchMore ::
  "('a, 'e) database \<Rightarrow> ('n \<Rightarrow> string) \<Rightarrow> string \<Rightarrow> 'n \<Rightarrow> 'n
     \<Rightarrow> ('a IMessage \<Rightarrow> ('a, 'e) world \<Rightarrow> ('a, 'e) world)
     \<Rightarrow> ('a, 'e) world \<Rightarrow> ('a, 'e) world" where
  "fetchMore db str sql limit offset callback =
     db_all db (formatSql str sql limit offset) (\<lambda>r.
       case r of
         Inl err \<Rightarrow>
           callback \<lparr>type = More, success = False, message = Some err, results = None\<rparr>
       | Inr res \<Rightarrow>
           callback \<lparr>type = More, success = True, message = None, results = Some res\<rparr>)"

section \<open>ParquetDocumentProvider.postMessage and onMessage\<close>

definition postMessage :: "'a IMessage \<Rightarrow> ('a, 'e) world \<Rightarrow> ('a, 'e) world" where
  "postMessage msg w = w\<lparr>posted := posted w @ [msg]\<rparr>"

text \<open>
  An incoming webview message, with the fields the switch and its two cases read.
\<close>

record 'n request =
  req_type :: string
  req_sql :: string
  req_limit :: 'n
  req_offset :: 'n

definition onMessage ::
  "('a, 'e) database \<Rightarrow> ('n::zero \<Rightarrow> string) \<Rightarrow> 'n request
     \<Rightarrow> ('a, 'e) world \<Rightarrow> ('a, 'e) world" where
  "onMessage db str m w =
     (if req_type m = ''query''
        then runQuery db str (req_sql m) (req_limit m) postMessage w
      else if req_type m = ''more''
        then fetchMore db str (req_sql m) (req_limit m) (req_offset m) postMessage w
      else w)"

section \<open>Two engines and a starting world, for evaluation\<close>

definition count_engine :: "(unit, unit) database" where
  \<comment> \<open>answers every statement with the one row of a \<open>count(*)\<close>, a 64-bit integer\<close>
  "count_engine stmt e = (Inr [[(''n'', BigInt 3)]], e)"

definition error_engine :: "(unit, unit) database" where
  \<comment> \<open>rejects every statement\<close>
  "error_engine stmt e = (Inl ''Parser Error: syntax error'', e)"

definition idle :: "(unit, unit) world" where
  "idle = \<lparr>db_state = (), executed = [], posted = []\<rparr>"

section \<open>Properties of formatSql\<close>

lemma startsWith_append:
  "startsWith s p \<Longrightarrow> startsWith (s @ r) p"
proof -
  assume h: "startsWith s p"
  then have "length (take (length p) s) = length p"
    unfolding startsWith_def by simp
  then have "length p \<le> length s"
    by simp
  with h show ?thesis
    unfolding startsWith_def by simp
qed

lemma trimEnd_decomp: "\<exists>r. s = trimEnd s @ r"
proof -
  have "s = rev (takeWhile isWhiteSpace (rev s) @ dropWhile isWhiteSpace (rev s))"
    by simp
  also have "\<dots> = rev (dropWhile isWhiteSpace (rev s)) @ rev (takeWhile isWhiteSpace (rev s))"
    by (rule rev_append)
  finally have "s = trimEnd s @ rev (takeWhile isWhiteSpace (rev s))"
    unfolding trimEnd_def .
  then show ?thesis ..
qed

text \<open>
  C1. The claim: for a non-describe statement the rewritten text is the wrapper around
  the statement with no semicolon left in it, wherever and however often semicolons
  occurred. The source calls \<open>replace\<close> with a string pattern, which removes one
  occurrence only: on \<open>select 1;;\<close> (limit 10, offset 0) the second semicolon stays
  inside the parentheses of the rewritten statement.
\<close>

theorem formatSql_keeps_second_semicolon:
  "formatSql decimal ''select 1;;'' 10 0
     = ''SELECT * FROM ('' @ [newline] @ ''select 1;'' @ [newline] @ '') LIMIT 10 OFFSET 0''
   \<and> \<not> startsWith (toLowerCase ''select 1;;'') ''describe''
   \<and> replace '';'' '''' ''select 1;;'' = ''select 1;''
   \<and> CHR '';'' \<in> set (replace '';'' '''' ''select 1;;'')"
  by code_simp

text \<open>
  C3. The claim: a statement that begins with \<open>describe\<close> after trimming and lowering
  case is returned verbatim. The source lowers the case but does not trim, so a
  statement with white space before \<open>describe\<close> is wrapped like any other
  (\<open>formatSql_describe_trim_counterexample\<close>). Amended: for every statement with no
  leading white space that begins with \<open>describe\<close> after trimming and lowering case,
  \<open>formatSql\<close> returns the statement verbatim, for every limit and offset.
\<close>

theorem formatSql_describe_untrimmed:
  assumes "spec_describe sql" and "trimStart sql = sql"
  shows "formatSql str sql limit offset = sql"
proof -
  obtain r where r: "sql = trimEnd sql @ r"
    using trimEnd_decomp by blast
  from assms have "startsWith (toLowerCase (trimEnd sql)) ''describe''"
    by (simp add: spec_describe_def trim_def)
  then have "startsWith (toLowerCase (trimEnd sql) @ toLowerCase r) ''describe''"
    by (rule startsWith_append)
  then have "startsWith (toLowerCase (trimEnd sql @ r)) ''describe''"
    by (simp add: toLowerCase_def)
  with r have "startsWith (toLowerCase sql) ''describe''"
    by simp
  then show ?thesis
    by (simp add: formatSql_def)
qed

theorem formatSql_describe_untrimmed_witness:
  "spec_describe ''DESCRIBE data  '' \<and> trimStart ''DESCRIBE data  '' = ''DESCRIBE data  ''
   \<and> formatSql decimal ''DESCRIBE data  '' 10 0 = ''DESCRIBE data  ''"
proof -
  have a: "spec_describe ''DESCRIBE data  ''"
    by code_simp
  have b: "trimStart ''DESCRIBE data  '' = ''DESCRIBE data  ''"
    by code_simp
  from a b formatSql_describe_untrimmed [OF a b, of decimal 10 0] show ?thesis
    by simp
qed

theorem formatSql_describe_trim_counterexample:
  "spec_describe '' describe data''
   \<and> formatSql decimal '' describe data'' 10 0 \<noteq> '' describe data''
   \<and> formatSql decimal '' describe data'' 10 0
       = ''SELECT * FROM ('' @ [newline] @ '' describe data'' @ [newline] @ '') LIMIT 10 OFFSET 0''"
  by code_simp

text \<open>
  C10. The describe check is a prefix match on the lowered text with no word boundary:
  every statement whose lowered text starts with the eight characters \<open>describe\<close>, also
  as the beginning of a longer word, is returned verbatim for every limit and offset.
\<close>

theorem formatSql_describe_prefix:
  assumes "startsWith (toLowerCase sql) ''describe''"
  shows "formatSql str sql limit offset = sql"
  using assms by (simp add: formatSql_def)

theorem formatSql_describe_prefix_witness:
  "startsWith (toLowerCase ''Described x'') ''describe''
   \<and> formatSql decimal ''Described x'' 10 0 = ''Described x''"
proof -
  have a: "startsWith (toLowerCase ''Described x'') ''describe''"
    by code_simp
  from a formatSql_describe_prefix [OF a, of decimal 10 0] show ?thesis
    by simp
qed

section \<open>Properties of cleanResults\<close>

lemma nearest_binary64_exact:
  assumes "\<bar>b\<bar> \<le> 2 ^ 53"
  shows "nearest_binary64 b = b"
proof (cases "\<bar>b\<bar> < 2 ^ 53")
  case True
  then have "bitlen \<bar>b\<bar> \<le> 53"
    by (simp add: bitlen_le_iff_power)
  then show ?thesis
    by (simp add: nearest_binary64_def Let_def)
next
  case False
  with assms have eq: "\<bar>b\<bar> = 2 ^ 53"
    by simp
  have "bitlen ((2::int) ^ 53 + 0) = int (53 + 1)"
    by (rule bitlen_twopow_add_eq) simp_all
  then have bl: "bitlen \<bar>b\<bar> = 54"
    using eq by simp
  have "sgn b * \<bar>b\<bar> = b"
    by (simp add: mult_sgn_abs)
  then show ?thesis
    using eq bl by (simp add: nearest_binary64_def Let_def)
qed

lemma nearest_binary64_above_safe:
  "nearest_binary64 9007199254740993 = 9007199254740992"
  by code_simp

lemma assign_past:
  "key \<notin> fst ` set pre \<Longrightarrow> assign key v (pre @ (key, v') # rest) = pre @ (key, v) # rest"
  by (induction pre) auto

text \<open>
  The loop invariant of \<open>cleanRow\<close>: with the entries before the current one already
  cleaned (\<open>pre\<close>) and the remaining ones (\<open>es\<close>) still as they were, the remaining
  iterations clean \<open>es\<close> in place.
\<close>

lemma cleanRow_loop:
  "distinct (map fst (pre @ es)) \<Longrightarrow>
   fold (\<lambda>(key, value) row'.
           case value of BigInt b \<Rightarrow> assign key (Number_of b) row' | _ \<Rightarrow> row')
        es (pre @ es)
   = pre @ map (\<lambda>(k, v). (k, spec_cleanCell v)) es"
proof (induction es arbitrary: pre)
  case Nil
  then show ?case by simp
next
  case (Cons e es)
  obtain k v where e: "e = (k, v)"
    by (cases e)
  from Cons.prems e have notin: "k \<notin> fst ` set pre"
    by auto
  have step:
    "(case v of BigInt b \<Rightarrow> assign k (Number_of b) (pre @ (k, v) # es)
      | _ \<Rightarrow> pre @ (k, v) # es)
     = (pre @ [(k, spec_cleanCell v)]) @ es"
    using notin
    by (cases v)
       (simp_all add: assign_past spec_cleanCell_def Number_of_def nearest_binary64_exact)
  from Cons.prems e have d: "distinct (map fst ((pre @ [(k, spec_cleanCell v)]) @ es))"
    by auto
  show ?case
    using Cons.IH [OF d] step e by simp
qed

lemma cleanRow_map:
  "distinct (map fst row) \<Longrightarrow> cleanRow row = map (\<lambda>(k, v). (k, spec_cleanCell v)) row"
  using cleanRow_loop [of "[]" row] by (simp add: cleanRow_def Object_entries_def)

text \<open>
  C6. The claim: every bigint cell is replaced by a number equal in value, every other
  cell is unchanged. \<open>Number\<close> rounds to a double, so a 64-bit integer above \<open>2^53\<close>
  need not keep its value: \<open>9007199254740993\<close> becomes \<open>9007199254740992\<close>
  (\<open>cleanResults_precision_counterexample\<close>). Amended: in every result set whose rows
  have each column once, every bigint cell is replaced by the number nearest to it,
  which is equal in value whenever the magnitude is at most \<open>2^53\<close>, and every other
  cell, every key and the order of rows and columns are unchanged.
\<close>

theorem cleanResults_cells:
  assumes "\<forall>row \<in> set tbl. distinct (map fst row)"
  shows "cleanResults tbl = map (map (\<lambda>(k, v). (k, spec_cleanCell v))) tbl"
  using assms by (simp add: cleanResults_def cleanRow_map)

theorem cleanResults_cells_witness:
  "list_all (\<lambda>row. distinct (map fst row))
     [[(''id'', BigInt 9007199254740993), (''price'', Number (3 / 2)), (''name'', Other ())],
      [(''id'', BigInt (- 7)), (''price'', Number 2), (''name'', Other ())]]
   \<and> cleanResults [[(''id'', BigInt 9007199254740993), (''price'', Number (3 / 2)),
                     (''name'', Other ())],
                    [(''id'', BigInt (- 7)), (''price'', Number 2), (''name'', Other ())]]
     = [[(''id'', Number 9007199254740992), (''price'', Number (3 / 2)), (''name'', Other ())],
        [(''id'', Number (- 7)), (''price'', Number 2), (''name'', Other ())]]"
proof -
  let ?t = "[[(''id'', BigInt 9007199254740993), (''price'', Number (3 / 2)),
              (''name'', Other ())],
             [(''id'', BigInt (- 7)), (''price'', Number 2), (''name'', Other ())]]"
  have h: "\<forall>row \<in> set ?t. distinct (map fst row)"
    by simp
  from h cleanResults_cells [OF h] show ?thesis
    by (simp add: spec_cleanCell_def nearest_binary64_above_safe)
qed

theorem cleanResults_precision_counterexample:
  "cleanResults [[(''id'', BigInt 9007199254740993)]]
     = [[(''id'', Number 9007199254740992 :: unit jsvalue)]]
   \<and> (9007199254740992 :: rat) \<noteq> 9007199254740993"
  by code_simp

section \<open>Properties of runQuery and fetchMore\<close>

text \<open>
  C2. The claim: every successful response, of \<open>runQuery\<close> and of \<open>fetchMore\<close>, carries
  a cleaned result set. \<open>runQuery\<close> passes the rows through \<open>cleanResults\<close>;
  \<open>fetchMore\<close> hands the engine's rows to the callback as they are, so a bigint cell
  reaches the UI.
\<close>

theorem fetchMore_posts_bigint:
  "posted (fetchMore count_engine decimal ''select count(*) as n from data'' 10 0
             postMessage idle)
     = [\<lparr>type = More, success = True, message = None, results = Some [[(''n'', BigInt 3)]]\<rparr>]"
  by (simp add: fetchMore_def db_all_def count_engine_def postMessage_def idle_def)

text \<open>
  C5. The claim: after a successful \<open>runQuery\<close>, \<open>fetchMore\<close> with offset 0 and the
  same statement and limit yields the identical result set. On an engine that answers
  the same statement with the same rows, the two differ as soon as a row holds a
  bigint: \<open>runQuery\<close> delivers the number 3, \<open>fetchMore\<close> the bigint 3.
\<close>

theorem fetchMore_differs_from_runQuery:
  "posted (runQuery count_engine decimal ''select count(*) as n from data'' 10
             postMessage idle)
     = [\<lparr>type = Query, success = True, message = None, results = Some [[(''n'', Number 3)]]\<rparr>]
   \<and> posted (fetchMore count_engine decimal ''select count(*) as n from data'' 10 0
               postMessage idle)
     = [\<lparr>type = More, success = True, message = None, results = Some [[(''n'', BigInt 3)]]\<rparr>]
   \<and> map results (posted (runQuery count_engine decimal ''select count(*) as n from data'' 10
                            postMessage idle))
     \<noteq> map results (posted (fetchMore count_engine decimal ''select count(*) as n from data''
                              10 0 postMessage idle))"
  by code_simp

lemma explain_not_bounded:
  "formatSql str sql limit offset \<noteq> ''EXPLAIN'' @ [newline] @ sql"
proof (cases "startsWith (toLowerCase sql) ''describe''")
  case True
  have "length sql \<noteq> length (''EXPLAIN'' @ [newline] @ sql)"
    by simp
  then have "sql \<noteq> ''EXPLAIN'' @ [newline] @ sql"
    by metis
  with True show ?thesis
    by (simp add: formatSql_def)
next
  case False
  then show ?thesis
    by (simp add: formatSql_def)
qed

text \<open>
  C4. If the validation pass fails, \<open>runQuery\<close> calls the callback once, with the
  failed \<open>query\<close> message that carries the engine's error text, in a world where the
  EXPLAIN statement is the only statement executed; the bounded statement is a
  different text, so it has not been executed.
\<close>

theorem runQuery_validation_failure:
  assumes "db (''EXPLAIN'' @ [newline] @ sql) (db_state w) = (Inl err, e')"
  shows "runQuery db str sql limit callback w
           = callback \<lparr>type = Query, success = False, message = Some err, results = None\<rparr>
               (w\<lparr>db_state := e', executed := executed w @ [''EXPLAIN'' @ [newline] @ sql]\<rparr>)
         \<and> formatSql str sql limit 0 \<noteq> ''EXPLAIN'' @ [newline] @ sql"
  using assms explain_not_bounded [of str sql limit 0]
  by (simp add: runQuery_def db_all_def)

theorem runQuery_validation_failure_witness:
  "error_engine (''EXPLAIN'' @ [newline] @ ''selec 1'') (db_state idle)
     = (Inl ''Parser Error: syntax error'', ())
   \<and> runQuery error_engine decimal ''selec 1'' 10 postMessage idle
     = \<lparr>db_state = (), executed = [''EXPLAIN'' @ [newline] @ ''selec 1''],
        posted = [\<lparr>type = Query, success = False,
                   message = Some ''Parser Error: syntax error'', results = None\<rparr>]\<rparr>"
proof -
  have h: "error_engine (''EXPLAIN'' @ [newline] @ ''selec 1'') (db_state idle)
             = (Inl ''Parser Error: syntax error'', ())"
    by (simp add: error_engine_def)
  from h
    runQuery_validation_failure
      [where db = error_engine and sql = "''selec 1''" and w = idle and str = decimal
         and limit = 10 and callback = postMessage, OF h]
  show ?thesis
    by (simp add: postMessage_def idle_def)
qed

text \<open>
  C7. Each of \<open>runQuery\<close> and \<open>fetchMore\<close> produces one response message, and in it
  \<open>results\<close> is present exactly when \<open>success\<close> is true and \<open>message\<close> is present
  exactly when \<open>success\<close> is false.
\<close>

theorem response_shape:
  "(\<exists>m. posted (runQuery db str sql limit postMessage w) = posted w @ [m]
        \<and> (results m \<noteq> None) = success m \<and> (message m = None) = success m)
   \<and> (\<exists>m. posted (fetchMore db str sql limit offset postMessage w) = posted w @ [m]
        \<and> (results m \<noteq> None) = success m \<and> (message m = None) = success m)"
  by (simp add: runQuery_def fetchMore_def db_all_def postMessage_def
           split: prod.splits sum.splits)

theorem response_shape_witness:
  "(\<exists>m. posted (runQuery count_engine decimal ''select 1'' 10 postMessage idle)
           = posted idle @ [m]
        \<and> (results m \<noteq> None) = success m \<and> (message m = None) = success m)
   \<and> (\<exists>m. posted (fetchMore error_engine decimal ''select 1'' 10 5 postMessage idle)
           = posted idle @ [m]
        \<and> (results m \<noteq> None) = success m \<and> (message m = None) = success m)"
proof -
  have a: "\<exists>m. posted (runQuery count_engine decimal ''select 1'' 10 postMessage idle)
                  = posted idle @ [m]
               \<and> (results m \<noteq> None) = success m \<and> (message m = None) = success m"
    using response_shape [of count_engine decimal "''select 1''" 10 idle 0] by blast
  have b: "\<exists>m. posted (fetchMore error_engine decimal ''select 1'' 10 5 postMessage idle)
                  = posted idle @ [m]
               \<and> (results m \<noteq> None) = success m \<and> (message m = None) = success m"
    using response_shape [of error_engine decimal "''select 1''" 10 idle 5] by blast
  from a b show ?thesis ..
qed

text \<open>
  C9. The first statement \<open>runQuery\<close> submits is the text \<open>EXPLAIN\<close>, a newline and the
  raw SQL, with nothing stripped and nothing wrapped around it; the bounded statement
  follows only when the validation succeeded.
\<close>

theorem runQuery_explain_statement:
  "executed (runQuery db str sql limit postMessage w)
     = executed w @ (''EXPLAIN'' @ [newline] @ sql)
         # (case fst (db (''EXPLAIN'' @ [newline] @ sql) (db_state w)) of
              Inl err \<Rightarrow> []
            | Inr res \<Rightarrow> [formatSql str sql limit 0])"
  by (simp add: runQuery_def db_all_def postMessage_def split: prod.splits sum.splits)

theorem runQuery_explain_statement_witness:
  "executed (runQuery count_engine decimal ''select 1; select 2;'' 10 postMessage idle)
     = [''EXPLAIN'' @ [newline] @ ''select 1; select 2;'',
        ''SELECT * FROM ('' @ [newline] @ ''select 1 select 2;'' @ [newline]
          @ '') LIMIT 10 OFFSET 0'']"
proof -
  have f: "formatSql decimal ''select 1; select 2;'' 10 0
             = ''SELECT * FROM ('' @ [newline] @ ''select 1 select 2;'' @ [newline]
                 @ '') LIMIT 10 OFFSET 0''"
    by code_simp
  from runQuery_explain_statement [of count_engine decimal "''select 1; select 2;''" 10 idle]
  show ?thesis
    by (simp add: f count_engine_def idle_def)
qed

section \<open>Properties of onMessage\<close>

text \<open>
  C8. A webview message whose kind is neither \<open>query\<close> nor \<open>more\<close> leaves the world as
  it was: no statement is executed (so neither \<open>runQuery\<close> nor \<open>fetchMore\<close> ran) and no
  message is posted.
\<close>

theorem onMessage_unrecognized:
  assumes "req_type m \<noteq> ''query''" and "req_type m \<noteq> ''more''"
  shows "onMessage db str m w = w"
  using assms by (simp add: onMessage_def)

theorem onMessage_unrecognized_witness:
  "req_type \<lparr>req_type = ''cancel'', req_sql = ''select 1'', req_limit = 10, req_offset = 0\<rparr>
     \<noteq> ''query''
   \<and> req_type \<lparr>req_type = ''cancel'', req_sql = ''select 1'', req_limit = 10, req_offset = 0\<rparr>
     \<noteq> ''more''
   \<and> onMessage count_engine decimal
       \<lparr>req_type = ''cancel'', req_sql = ''select 1'', req_limit = 10, req_offset = 0\<rparr> idle
     = idle"
proof -
  let ?m = "\<lparr>req_type = ''cancel'', req_sql = ''select 1'', req_limit = 10 :: int,
             req_offset = 0\<rparr>"
  have a: "req_type ?m \<noteq> ''query''"
    by simp
  have b: "req_type ?m \<noteq> ''more''"
    by simp
  from a b onMessage_unrecognized [OF a b, of count_engine decimal idle] show ?thesis
    by simp
qed

end
